theory Spec2Isabelle
  imports Complex_Main
begin

section \<open>The charge-state model of \<^verbatim>\<open>baroncs/charge_state.py\<close>\<close>

text \<open>
  The class \<^verbatim>\<open>ChargeState\<close> keeps five attributes, every one \<^verbatim>\<open>None\<close> on a fresh
  instance, and computes the mean and the standard deviation of the charge state of an
  ion after a carbon foil (Baron et al., 1993).

  Numbers. A Python or NumPy float is read as a real number. Where the reachable code
  leaves the reals and goes on, the value is \<^verbatim>\<open>nan\<close> (\<^verbatim>\<open>np.sqrt\<close> of a negative number,
  an undefined quotient of NumPy numbers): a float value is therefore a \<open>npfloat\<close>, a
  real or \<open>NaN\<close>, and \<open>NaN\<close> is carried through every later operation as NumPy does. Where Python raises instead
  (a division by zero or zero to a negative power among Python floats, \<^verbatim>\<open>round\<close> of
  \<^verbatim>\<open>nan\<close>) the model raises. Rounding error and overflow are not modelled, and an
  infinity is followed only through the \<^verbatim>\<open>beta\<close> setter, where it ends in a real or in
  \<^verbatim>\<open>nan\<close>.

  Errors. Every \<^verbatim>\<open>raise\<close> of the source is a \<^verbatim>\<open>ValueError\<close>; it carries the message
  of the source. The interpreter's own exceptions are \<open>ZeroDivisionError\<close>,
  \<open>TypeError\<close> and the \<^verbatim>\<open>ValueError\<close> of a failed tuple unpacking or of a cast
  of \<^verbatim>\<open>nan\<close> to an integer.
\<close>

subsection \<open>Values, errors and the instance state\<close>

datatype error = ValueError string | ZeroDivisionError | TypeError

datatype npfloat = Num real | NaN

text \<open>
  A number that enters an arithmetic expression is a Python number (\<open>Py\<close>) or a NumPy
  \<^verbatim>\<open>np.float64\<close> (\<open>Np\<close>), itself an instance of \<^verbatim>\<open>float\<close>. The two differ where the
  arithmetic is undefined: Python raises \<open>ZeroDivisionError\<close>, and an operation with a
  NumPy operand gives an infinity or \<^verbatim>\<open>nan\<close> and goes on.
\<close>

datatype pyfloat = Py real | Np real

fun fval :: "pyfloat \<Rightarrow> real" where
  "fval (Py x) = x"
| "fval (Np x) = x"

fun is_np :: "pyfloat \<Rightarrow> bool" where
  "is_np (Py x) = False"
| "is_np (Np x) = True"

text \<open>
  The values the \<^verbatim>\<open>beta\<close> setter and the \<^verbatim>\<open>beta\<close> argument of \<^verbatim>\<open>dataframe\<close> tell
  apart: \<^verbatim>\<open>None\<close>, a float, an integer (not an instance of \<^verbatim>\<open>float\<close>), a string, and a
  tuple of numbers of any length.
\<close>

datatype pyval = PNone | PFloat real | PInt int | PStr string | PTuple "pyfloat list"

record ChargeState =
  atomic_nr :: "real option"
  energy :: "real option"
  c_factor :: "real option"
  e0 :: "real option"
  priv_beta :: "npfloat option"  \<comment> \<open>the attribute \<^verbatim>\<open>_beta\<close>\<close>

definition fresh :: ChargeState where
  "fresh = \<lparr>atomic_nr = None, energy = None, c_factor = None, e0 = None, priv_beta = None\<rparr>"

subsection \<open>NumPy and Python primitives\<close>

fun np_map :: "(real \<Rightarrow> real) \<Rightarrow> npfloat \<Rightarrow> npfloat" where
  "np_map f NaN = NaN"
| "np_map f (Num x) = Num (f x)"

definition np_sqrt :: "real \<Rightarrow> npfloat" where
  "np_sqrt x = (if x < 0 then NaN else Num (sqrt x))"

fun np_bind :: "npfloat \<Rightarrow> (real \<Rightarrow> npfloat) \<Rightarrow> npfloat" where
  "np_bind NaN f = NaN"
| "np_bind (Num x) f = f x"

text \<open>\<^verbatim>\<open>int(x)\<close> of a float truncates towards zero.\<close>

definition py_int :: "real \<Rightarrow> int" where
  "py_int x = (if 0 \<le> x then \<lfloor>x\<rfloor> else \<lceil>x\<rceil>)"

text \<open>\<^verbatim>\<open>round(x)\<close> of a float rounds to the nearest integer, a tie to the even one.\<close>

definition py_round :: "real \<Rightarrow> int" where
  "py_round x =
     (let f = \<lfloor>x\<rfloor>; d = x - of_int f
      in if d < 1 / 2 then f else if 1 / 2 < d then f + 1 else if even f then f else f + 1)"

text \<open>\<^verbatim>\<open>np.arange(a, b)\<close> on integers: \<open>a, a + 1, ..., b - 1\<close>, empty when \<open>b \<le> a\<close>.\<close>

definition arange :: "int \<Rightarrow> int \<Rightarrow> int list" where
  "arange a b = [a..b - 1]"

subsection \<open>The \<^verbatim>\<open>beta\<close> property\<close>

text \<open>
  \<^verbatim>\<open>
    @property
    def beta(self):
        if isinstance(self._beta, float):
            return self._beta
        else:
            raise ValueError("Use charge_state_distribution() first or set beta")
  \<close>
\<close>

definition beta :: "ChargeState \<Rightarrow> error + npfloat" where
  "beta s =
     (case priv_beta s of
        Some b \<Rightarrow> Inr b
      | None \<Rightarrow> Inl (ValueError ''Use charge_state_distribution() first or set beta''))"

text \<open>
  \<^verbatim>\<open>
    @beta.setter
    def beta(self, value):
        if isinstance(value, float):
            self._beta = value
        elif isinstance(value, tuple):
            self.energy, self.e0 = value
            self._beta = np.sqrt(1 - (1 + self.energy / self.e0) ** (-2))
        else:
            raise ValueError(
                "For the beta setter, provide a tuple of (energy, e0) or a float for beta")
  \<close>
  The unpacking of a tuple that has not two components raises before it assigns.

  The expression \<^verbatim>\<open>np.sqrt(1 - (1 + self.energy / self.e0) ** (-2))\<close> is \<open>derive_beta\<close>.
  It is evaluated after \<^verbatim>\<open>energy\<close> and \<^verbatim>\<open>e0\<close> have been assigned and before \<^verbatim>\<open>_beta\<close>
  is. Where the quotient or the power is undefined, the outcome follows the operands:
  \<^item> two Python numbers: \<^verbatim>\<open>energy / e0\<close> with \<^verbatim>\<open>e0 = 0\<close>, and \<^verbatim>\<open>0.0 ** (-2)\<close>, raise
    \<open>ZeroDivisionError\<close>;
  \<^item> a NumPy operand: with \<^verbatim>\<open>e0 = 0\<close> the quotient is \<^verbatim>\<open>nan\<close> for \<^verbatim>\<open>energy = 0\<close>, and so
    is the result; otherwise it is an infinity, its power \<open>-2\<close> is zero and the result
    is \<open>sqrt 1 = 1\<close>; with \<^verbatim>\<open>1 + energy / e0 = 0\<close> the power is an infinity, the
    radicand is \<open>-\<infinity>\<close> and the result is \<^verbatim>\<open>nan\<close>.
\<close>

definition beta_of_energy :: "real \<Rightarrow> real \<Rightarrow> npfloat" where
  "beta_of_energy en ez = np_sqrt (1 - (1 + en / ez) powi (- 2))"

definition derive_beta :: "pyfloat \<Rightarrow> pyfloat \<Rightarrow> error + npfloat" where
  "derive_beta a b =
     (let en = fval a; ez = fval b
      in if is_np a \<or> is_np b then
           (if ez = 0 then (if en = 0 then Inr NaN else Inr (Num 1))
            else if 1 + en / ez = 0 then Inr NaN
            else Inr (beta_of_energy en ez))
         else
           (if ez = 0 then Inl ZeroDivisionError
            else if 1 + en / ez = 0 then Inl ZeroDivisionError
            else Inr (beta_of_energy en ez)))"

fun beta_setter :: "ChargeState \<Rightarrow> pyval \<Rightarrow> ChargeState \<times> (error + unit)" where
  "beta_setter s (PFloat v) = (s\<lparr>priv_beta := Some (Num v)\<rparr>, Inr ())"
| "beta_setter s (PTuple [a, b]) =
     (let s1 = s\<lparr>energy := Some (fval a), e0 := Some (fval b)\<rparr>
      in case derive_beta a b of
           Inl e \<Rightarrow> (s1, Inl e)
         | Inr v \<Rightarrow> (s1\<lparr>priv_beta := Some v\<rparr>, Inr ()))"
| "beta_setter s (PTuple []) = (s, Inl (ValueError ''not enough values to unpack''))"
| "beta_setter s (PTuple [x]) = (s, Inl (ValueError ''not enough values to unpack''))"
| "beta_setter s (PTuple (x # y # z # zs)) = (s, Inl (ValueError ''too many values to unpack''))"
| "beta_setter s v =
     (s, Inl (ValueError
        ''For the beta setter, provide a tuple of (energy, e0) or a float for beta''))"

subsection \<open>Equation 1: \<^verbatim>\<open>__mean_charge_state_p\<close>\<close>

text \<open>
  \<^verbatim>\<open>
    def __mean_charge_state_p(self, atomic_nr: pd.Series = None, c_factor: float = None):
        if atomic_nr is None and self.atomic_nr is None:
            return self.atomic_nr * (
                self.c_factor
                - np.exp(-83.28 * (self.beta / (self.atomic_nr ** (0.447)))))
        elif (atomic_nr is not None) and (c_factor is not None):
            return atomic_nr * (
                c_factor - np.exp(-83.28 * (self.beta / (atomic_nr ** (0.447)))))
        else:
            raise ValueError(
                "Provide both atomic_nr and c_factor or use charge_state_distribution() first")
  \<close>
  In the first branch \<^verbatim>\<open>self.atomic_nr\<close> is \<^verbatim>\<open>None\<close>: the operands are evaluated from
  the left, so \<^verbatim>\<open>self.beta\<close> is read (and may raise) before \<^verbatim>\<open>None ** 0.447\<close> raises
  \<^verbatim>\<open>TypeError\<close>. The second branch is the one \<^verbatim>\<open>__generate\<close> calls on a column of the
  table; NumPy computes it row by row, and \<open>eq1\<close> is the computation at one row: a
  negative base of the fractional power gives \<^verbatim>\<open>nan\<close>, and so does the base zero unless
  \<^verbatim>\<open>beta\<close> is positive (then the exponential is \<open>exp (-\<infinity>) = 0\<close> and the product is
  zero, which is also what the real-number expression gives).
\<close>

definition eq1 :: "real \<Rightarrow> real \<Rightarrow> npfloat \<Rightarrow> npfloat" where
  "eq1 Z c b =
     np_bind b (\<lambda>bv.
       if Z < 0 then NaN
       else if Z = 0 \<and> bv \<le> 0 then NaN
       else Num (Z * (c - exp (- 83.28 * (bv / (Z powr 0.447))))))"

definition mean_charge_state_p ::
    "ChargeState \<Rightarrow> real option \<Rightarrow> real option \<Rightarrow> error + npfloat" where
  "mean_charge_state_p s atomic_nr_arg c_factor_arg =
     (case (atomic_nr_arg, atomic_nr s) of
        (None, None) \<Rightarrow>
          (case beta s of Inl e \<Rightarrow> Inl e | Inr b \<Rightarrow> Inl TypeError)
      | _ \<Rightarrow>
          (case (atomic_nr_arg, c_factor_arg) of
             (Some Z, Some c) \<Rightarrow>
               (case beta s of Inl e \<Rightarrow> Inl e | Inr b \<Rightarrow> Inr (eq1 Z c b))
           | _ \<Rightarrow>
               Inl (ValueError
                 ''Provide both atomic_nr and c_factor or use charge_state_distribution() first'')))"

subsection \<open>Equations 3 and 1: \<^verbatim>\<open>mean_charge_state\<close>\<close>

text \<open>
  \<^verbatim>\<open>
    @property
    def mean_charge_state(self):
        if self.atomic_nr is None:
            raise ValueError("Use charge_state_distribution() first")
        mean_charge = self.__mean_charge_state_p()  # Equation 1
        if self.atomic_nr >= 54:
            mean_charge = mean_charge * (
                1 - np.exp(-12.905 + 0.2124 * self.atomic_nr - 0.00122 * self.atomic_nr**2))
        return mean_charge
  \<close>
\<close>

definition eq3_factor :: "real \<Rightarrow> real" where
  "eq3_factor Z = 1 - exp (- 12.905 + 0.2124 * Z - 0.00122 * Z\<^sup>2)"

definition mean_charge_state :: "ChargeState \<Rightarrow> error + npfloat" where
  "mean_charge_state s =
     (case atomic_nr s of
        None \<Rightarrow> Inl (ValueError ''Use charge_state_distribution() first'')
      | Some Z \<Rightarrow>
          (case mean_charge_state_p s None None of
             Inl e \<Rightarrow> Inl e
           | Inr mean_charge \<Rightarrow>
               if 54 \<le> Z then Inr (np_map (\<lambda>m. m * eq3_factor Z) mean_charge)
               else Inr mean_charge))"

subsection \<open>Equations 4 and 2: \<^verbatim>\<open>std_charge_state\<close>\<close>

text \<open>
  \<^verbatim>\<open>
    @property
    def std_charge_state(self):
        if self.atomic_nr is None:
            raise ValueError("Use charge_state_distribution() first")
        mean_charge = self.__mean_charge_state_p()
        if self.atomic_nr >= 54:
            y = mean_charge / self.atomic_nr
            return np.sqrt(mean_charge * (0.07535 + 0.19 * y - 0.2654 * y**2))
        else:
            return 0.5 * np.sqrt(
                mean_charge * (1 - (mean_charge / self.atomic_nr) ** (1.67)))
  \<close>
  In equation 2 a negative base of the power \<open>1.67\<close>, and the quotient by the atomic
  number zero, give \<^verbatim>\<open>nan\<close>.
\<close>

definition eq4 :: "real \<Rightarrow> real \<Rightarrow> npfloat" where
  "eq4 Z m = (let y = m / Z in np_sqrt (m * (0.07535 + 0.19 * y - 0.2654 * y\<^sup>2)))"

definition eq2 :: "real \<Rightarrow> real \<Rightarrow> npfloat" where
  "eq2 Z m =
     (if Z = 0 then NaN
      else if m / Z < 0 then NaN
      else np_map (\<lambda>r. 0.5 * r) (np_sqrt (m * (1 - (m / Z) powr 1.67))))"

definition std_charge_state :: "ChargeState \<Rightarrow> error + npfloat" where
  "std_charge_state s =
     (case atomic_nr s of
        None \<Rightarrow> Inl (ValueError ''Use charge_state_distribution() first'')
      | Some Z \<Rightarrow>
          (case mean_charge_state_p s None None of
             Inl e \<Rightarrow> Inl e
           | Inr mean_charge \<Rightarrow>
               if 54 \<le> Z then Inr (np_bind mean_charge (eq4 Z))
               else Inr (np_bind mean_charge (eq2 Z))))"

subsection \<open>\<^verbatim>\<open>charge_state_distribution\<close>\<close>

text \<open>
  \<^verbatim>\<open>
    def charge_state_distribution(self, atomic_nr: float = None, energy: float = 4.2,
            c_factor: float = 1, e0: float = 931.5, dist_onesided_len: int = 5):
        self.atomic_nr = atomic_nr
        self.energy = energy
        self.c_factor = c_factor
        self.e0 = e0

        mean_charge = self.mean_charge_state
        std_charge = self.std_charge_state
        mean_int = round(mean_charge)
        charge_x = (
            np.arange(0, 2 * mean_int + 1)
            if dist_onesided_len > mean_int
            else np.arange(mean_int - dist_onesided_len, mean_int + dist_onesided_len + 1))
        charge_y = (
            1 / (std_charge * np.sqrt(2 * np.pi))
            * np.exp(-0.5 * ((charge_x - mean_charge) / std_charge) ** 2))
        return charge_x, charge_y
  \<close>
  The two local arrays are the functions \<open>charge_x\<close> and \<open>charge_y\<close>. \<^verbatim>\<open>round\<close> of
  \<^verbatim>\<open>nan\<close> raises \<^verbatim>\<open>ValueError\<close>.
\<close>

definition charge_x :: "int \<Rightarrow> int \<Rightarrow> int list" where
  "charge_x mean_int dist_onesided_len =
     (if mean_int < dist_onesided_len then arange 0 (2 * mean_int + 1)
      else arange (mean_int - dist_onesided_len) (mean_int + dist_onesided_len + 1))"

definition charge_y :: "int list \<Rightarrow> real \<Rightarrow> npfloat \<Rightarrow> npfloat list" where
  "charge_y cx mean_charge std_charge =
     map (\<lambda>q. np_map (\<lambda>sd. 1 / (sd * sqrt (2 * pi))
                 * exp (- 0.5 * ((of_int q - mean_charge) / sd)\<^sup>2)) std_charge) cx"

definition charge_state_distribution ::
    "ChargeState \<Rightarrow> real option \<Rightarrow> real \<Rightarrow> real \<Rightarrow> real \<Rightarrow> int
      \<Rightarrow> ChargeState \<times> (error + int list \<times> npfloat list)" where
  "charge_state_distribution s atomic_nr_arg energy_arg c_factor_arg e0_arg dist_onesided_len =
     (let s1 = s\<lparr>atomic_nr := atomic_nr_arg, energy := Some energy_arg,
                  c_factor := Some c_factor_arg, e0 := Some e0_arg\<rparr>
      in case mean_charge_state s1 of
           Inl e \<Rightarrow> (s1, Inl e)
         | Inr mean_charge \<Rightarrow>
             (case std_charge_state s1 of
                Inl e \<Rightarrow> (s1, Inl e)
              | Inr std_charge \<Rightarrow>
                  (case mean_charge of
                     NaN \<Rightarrow> (s1, Inl (ValueError ''cannot convert float NaN to integer''))
                   | Num m \<Rightarrow>
                       (let mean_int = py_round m;
                            cx = charge_x mean_int dist_onesided_len
                        in (s1, Inr (cx, charge_y cx m std_charge))))))"

subsection \<open>\<^verbatim>\<open>dataframe\<close> and \<^verbatim>\<open>__generate\<close>\<close>

text \<open>
  \<^verbatim>\<open>
    def __generate(self, atoms: str = "all", beta: int = None, e0: float = 931.5,
                   energy: float = 4.2) -> pd.DataFrame:
        data_dir = os.path.join(os.path.dirname(__file__), "table")
        data_path = os.path.join(data_dir, "elements.csv")
        with open(data_path, "r") as f:
            df = pd.read_csv(f, index_col=0)

        df["Nearest Q (A/Q=8)"] = df["Commonest Isotope"].apply(
            lambda x: int(x / 8) if int(x / 8) * 8 == x else int(x / 8) + 1)
        df["Actual Q/A"] = df["Nearest Q (A/Q=8)"] / df["Commonest Isotope"]
        df["A/Q"] = df["Commonest Isotope"] / df["Nearest Q (A/Q=8)"]

        if beta is None and self._beta is None:
            self.beta = (energy, e0)
            beta = self.beta
        elif beta is None:
            beta = self.beta
        else:
            self.beta = beta

        df["Mean Charge"] = self.__mean_charge_state_p(df["Atomic Number"], 1)
        df["Monst Probable"] = (df["Mean Charge"] + 0.5).astype(int)
        df["Standard Deviation"] =
  \<close>
  The source file ends the function with an assignment that has no right-hand side, so
  the module does not compile as it stands. The model follows the statements before
  that line: the function has no \<^verbatim>\<open>return\<close>, a call that raises nothing yields
  \<^verbatim>\<open>None\<close>, and the argument \<^verbatim>\<open>atoms\<close> is read nowhere.

  The file \<^verbatim>\<open>table/elements.csv\<close> is not part of the sources; its rows are the argument
  \<open>elements\<close>.
\<close>

text \<open>
  Modelled from the spec: a row of the reference table \<^verbatim>\<open>elements.csv\<close>, which is
  missing: the atomic number, the element symbol and the mass number of the commonest
  isotope.
\<close>

record element =
  atomic_number :: int
  symbol :: string
  commonest_isotope :: int

record df_row = element +
  nearest_q :: int
  actual_q_a :: real
  a_q :: real
  mean_charge_col :: npfloat
  most_probable :: int

datatype atoms_arg = AtomsAll | AtomsList "int list"

definition nearest_q_of :: "int \<Rightarrow> int" where
  "nearest_q_of x =
     (if py_int (of_int x / 8) * 8 = x then py_int (of_int x / 8)
      else py_int (of_int x / 8) + 1)"

text \<open>
  The call of \<^verbatim>\<open>__mean_charge_state_p\<close> on a column and a factor: both arguments are
  given, so it is the second branch, with \<^verbatim>\<open>self.beta\<close> read once and equation 1
  computed at every row.
\<close>

definition mean_charge_state_p_series ::
    "ChargeState \<Rightarrow> real list \<Rightarrow> real \<Rightarrow> error + npfloat list" where
  "mean_charge_state_p_series s zs c =
     (case beta s of Inl e \<Rightarrow> Inl e | Inr b \<Rightarrow> Inr (map (\<lambda>Z. eq1 Z c b) zs))"

text \<open>
  \<^verbatim>\<open>astype(int)\<close> truncates towards zero; pandas refuses a column that holds \<^verbatim>\<open>nan\<close>
  with a \<^verbatim>\<open>ValueError\<close>.
\<close>

fun astype_int :: "npfloat list \<Rightarrow> error + int list" where
  "astype_int [] = Inr []"
| "astype_int (NaN # xs) =
     Inl (ValueError ''Cannot convert non-finite values (NA or inf) to integer'')"
| "astype_int (Num x # xs) =
     (case astype_int xs of Inl e \<Rightarrow> Inl e | Inr ys \<Rightarrow> Inr (py_int x # ys))"

definition make_row :: "element \<Rightarrow> npfloat \<Rightarrow> int \<Rightarrow> df_row" where
  "make_row el m p =
     element.extend el
       \<lparr>nearest_q = nearest_q_of (commonest_isotope el),
        actual_q_a = of_int (nearest_q_of (commonest_isotope el)) / of_int (commonest_isotope el),
        a_q = of_int (commonest_isotope el) / of_int (nearest_q_of (commonest_isotope el)),
        mean_charge_col = m,
        most_probable = p\<rparr>"

text \<open>The table \<^verbatim>\<open>df\<close> as it stands before the last line of \<^verbatim>\<open>__generate\<close>.\<close>

definition generate_df ::
    "ChargeState \<Rightarrow> element list \<Rightarrow> pyval \<Rightarrow> pyfloat \<Rightarrow> pyfloat
      \<Rightarrow> ChargeState \<times> (error + df_row list)" where
  "generate_df s elements beta_arg e0_arg energy_arg =
     (let (s1, r) =
            (case (beta_arg, priv_beta s) of
               (PNone, None) \<Rightarrow>
                 (case beta_setter s (PTuple [energy_arg, e0_arg]) of
                    (s', Inl e) \<Rightarrow> (s', Inl e)
                  | (s', Inr u) \<Rightarrow> (s', map_sum id (\<lambda>b. ()) (beta s')))
             | (PNone, Some b) \<Rightarrow> (s, map_sum id (\<lambda>b. ()) (beta s))
             | _ \<Rightarrow> beta_setter s beta_arg)
      in case r of
           Inl e \<Rightarrow> (s1, Inl e)
         | Inr u \<Rightarrow>
             (case mean_charge_state_p_series s1
                     (map (\<lambda>el. of_int (atomic_number el)) elements) 1 of
                Inl e \<Rightarrow> (s1, Inl e)
              | Inr means \<Rightarrow>
                  (case astype_int (map (np_map (\<lambda>m. m + 0.5)) means) of
                     Inl e \<Rightarrow> (s1, Inl e)
                   | Inr probable \<Rightarrow>
                       (s1, Inr (map (\<lambda>(el, m, p). make_row el m p)
                                   (zip elements (zip means probable)))))))"

definition generate ::
    "ChargeState \<Rightarrow> element list \<Rightarrow> atoms_arg \<Rightarrow> pyval \<Rightarrow> pyfloat \<Rightarrow> pyfloat
      \<Rightarrow> ChargeState \<times> (error + df_row list option)" where
  "generate s elements atoms beta_arg e0_arg energy_arg =
     (case generate_df s elements beta_arg e0_arg energy_arg of
        (s1, Inl e) \<Rightarrow> (s1, Inl e)
      | (s1, Inr df) \<Rightarrow> (s1, Inr None))"

text \<open>
  \<^verbatim>\<open>
    def dataframe(self, beta: int = None, e0: float = 931.5, energy: float = 4.2,
                  atoms: int = "all") -> pd.DataFrame:
        df = self.__generate(atoms, beta, e0, energy)
        return df
  \<close>
\<close>

definition dataframe ::
    "ChargeState \<Rightarrow> element list \<Rightarrow> pyval \<Rightarrow> pyfloat \<Rightarrow> pyfloat \<Rightarrow> atoms_arg
      \<Rightarrow> ChargeState \<times> (error + df_row list option)" where
  "dataframe s elements beta_arg e0_arg energy_arg atoms =
     generate s elements atoms beta_arg e0_arg energy_arg"

text \<open>Three rows in the layout of the reference table: hydrogen, xenon and lead.\<close>

definition elements_sample :: "element list" where
  "elements_sample =
     [\<lparr>atomic_number = 1, symbol = ''H'', commonest_isotope = 1\<rparr>,
      \<lparr>atomic_number = 54, symbol = ''Xe'', commonest_isotope = 132\<rparr>,
      \<lparr>atomic_number = 82, symbol = ''Pb'', commonest_isotope = 208\<rparr>]"

section \<open>Properties\<close>

subsection \<open>The helper of equation 1 and the two properties that read it\<close>

text \<open>
  \<^verbatim>\<open>mean_charge_state\<close> and \<^verbatim>\<open>std_charge_state\<close> call \<^verbatim>\<open>__mean_charge_state_p()\<close> with
  no argument, and only after they have seen that \<^verbatim>\<open>self.atomic_nr\<close> is set. The first
  test of the helper then fails (it asks for \<^verbatim>\<open>self.atomic_nr is None\<close>), the second
  fails as well (no argument was given), and the helper raises.
\<close>

lemma mean_charge_state_p_no_arguments:
  "atomic_nr s = Some Z \<Longrightarrow>
   mean_charge_state_p s None None =
     Inl (ValueError
       ''Provide both atomic_nr and c_factor or use charge_state_distribution() first'')"
  by (simp add: mean_charge_state_p_def)

lemma mean_charge_state_unset:
  "atomic_nr s = None \<Longrightarrow>
   mean_charge_state s = Inl (ValueError ''Use charge_state_distribution() first'')"
  by (simp add: mean_charge_state_def)

lemma std_charge_state_unset:
  "atomic_nr s = None \<Longrightarrow>
   std_charge_state s = Inl (ValueError ''Use charge_state_distribution() first'')"
  by (simp add: std_charge_state_def)

lemma mean_charge_state_set:
  "atomic_nr s = Some Z \<Longrightarrow>
   mean_charge_state s =
     Inl (ValueError
       ''Provide both atomic_nr and c_factor or use charge_state_distribution() first'')"
  by (simp add: mean_charge_state_def mean_charge_state_p_no_arguments)

lemma std_charge_state_set:
  "atomic_nr s = Some Z \<Longrightarrow>
   std_charge_state s =
     Inl (ValueError
       ''Provide both atomic_nr and c_factor or use charge_state_distribution() first'')"
  by (simp add: std_charge_state_def mean_charge_state_p_no_arguments)

lemma mean_charge_state_never_returns: "\<exists>e. mean_charge_state s = Inl e"
  by (cases "atomic_nr s") (simp_all add: mean_charge_state_unset mean_charge_state_set)

lemma std_charge_state_never_returns: "\<exists>e. std_charge_state s = Inl e"
  by (cases "atomic_nr s") (simp_all add: std_charge_state_unset std_charge_state_set)

lemma charge_state_distribution_never_returns:
  "\<exists>e. snd (charge_state_distribution s a en c ez n) = Inl e"
proof -
  obtain e where
    "mean_charge_state
       (s\<lparr>atomic_nr := a, energy := Some en, c_factor := Some c, e0 := Some ez\<rparr>) = Inl e"
    using mean_charge_state_never_returns by blast
  then show ?thesis
    by (simp add: charge_state_distribution_def)
qed

lemma beta_raises_iff: "(\<exists>e. beta s = Inl e) \<longleftrightarrow> priv_beta s = None"
  by (simp add: beta_def split: option.splits)

lemma beta_unset:
  "priv_beta s = None \<Longrightarrow>
   beta s = Inl (ValueError ''Use charge_state_distribution() first or set beta'')"
  by (simp add: beta_def)

lemma mean_charge_state_p_series_row:
  "mean_charge_state_p_series s [Z] c =
     map_sum id (\<lambda>v. [v]) (mean_charge_state_p s (Some Z) (Some c))"
  by (simp add: mean_charge_state_p_series_def mean_charge_state_p_def
      split: option.splits sum.splits)

subsection \<open>The charge axis and the density\<close>

lemma arange_length: "length (arange a b) = nat (b - a)"
  by (simp add: arange_def)

lemma charge_x_axis: "charge_x m h = (if m < h then [0..2 * m] else [m - h..m + h])"
  by (simp add: charge_x_def arange_def)

lemma charge_x_length:
  "0 \<le> m \<Longrightarrow> 0 \<le> h \<Longrightarrow>
   length (charge_x m h) = (if m < h then nat (2 * m + 1) else nat (2 * h + 1))"
  by (simp add: charge_x_def arange_def)

lemma charge_y_length: "length (charge_y cx m sd) = length cx"
  by (simp add: charge_y_def)

subsection \<open>The derived speed fraction\<close>

lemma beta_of_energy_real:
  assumes "0 < ez" and "0 \<le> en"
  shows "beta_of_energy en ez = Num (sqrt (1 - (1 + en / ez) powi (- 2)))"
proof -
  from assms have "1 \<le> 1 + en / ez" by simp
  then have "1 \<le> (1 + en / ez)\<^sup>2" by (metis one_le_power)
  then have "inverse ((1 + en / ez)\<^sup>2) \<le> 1" by (metis inverse_le_1_iff)
  then show ?thesis
    by (simp add: beta_of_energy_def np_sqrt_def power_int_minus)
qed

lemma derive_beta_defined:
  "fval b \<noteq> 0 \<Longrightarrow> 1 + fval a / fval b \<noteq> 0 \<Longrightarrow>
   derive_beta a b = Inr (beta_of_energy (fval a) (fval b))"
  by (simp add: derive_beta_def Let_def)

lemma derive_beta_numpy_never_raises: "is_np a \<or> is_np b \<Longrightarrow> \<exists>v. derive_beta a b = Inr v"
  by (simp add: derive_beta_def Let_def)

lemma derive_beta_numpy_zero_e0:
  "derive_beta (Np 4.2) (Np 0) = Inr (Num 1) \<and> derive_beta (Np 0) (Np 0) = Inr NaN"
  by (simp add: derive_beta_def)

section \<open>The claims\<close>

text \<open>
  Claim C1. For an atomic number \<open>Z > 0\<close> and an established \<open>beta > 0\<close>,
  \<^verbatim>\<open>mean_charge_state\<close> is said to return \<open>Z * (c_factor - exp (-83.28 * beta / Z^0.447))\<close>,
  times the correction of equation 3 from \<open>Z = 54\<close> on, and not to raise. The code
  raises: with the atomic number 82, the factor 1 and \<open>beta = 0.095\<close> all set, reading
  the property gives the \<^verbatim>\<open>ValueError\<close> of the helper.
\<close>

theorem mean_charge_state_raises_at_82:
  "mean_charge_state
     (fresh\<lparr>atomic_nr := Some 82, c_factor := Some 1, priv_beta := Some (Num 0.095)\<rparr>)
   = Inl (ValueError
       ''Provide both atomic_nr and c_factor or use charge_state_distribution() first'')"
  by (simp add: mean_charge_state_def mean_charge_state_p_def fresh_def)

text \<open>
  Claim C2. \<^verbatim>\<open>charge_state_distribution\<close> on a fresh instance is said to derive
  \<open>beta = sqrt (1 - (1 + energy / e0)^(-2))\<close> from its arguments and to use it. The
  code stores the four arguments, never assigns \<^verbatim>\<open>_beta\<close>, and raises: on a fresh
  instance, with the atomic number 82 and the default arguments, \<^verbatim>\<open>_beta\<close> is still
  \<^verbatim>\<open>None\<close> after the call and the result is a \<^verbatim>\<open>ValueError\<close>.
\<close>

theorem charge_state_distribution_fresh_raises:
  "charge_state_distribution fresh (Some 82) 4.2 1 931.5 5 =
     (\<lparr>atomic_nr = Some 82, energy = Some 4.2, c_factor = Some 1, e0 = Some 931.5,
       priv_beta = None\<rparr>,
      Inl (ValueError
        ''Provide both atomic_nr and c_factor or use charge_state_distribution() first''))"
  by (simp add: charge_state_distribution_def mean_charge_state_def mean_charge_state_p_def
      fresh_def)

text \<open>
  Claim C3. \<^verbatim>\<open>dataframe(atoms=[54, 82])\<close> is said to return the rows of the atomic
  numbers 54 and 82, in the order of the table. The code reads \<^verbatim>\<open>atoms\<close> nowhere and
  returns no table: on a fresh instance and the three-row table above, the call with
  the default energy and \<^verbatim>\<open>atoms=[54, 82]\<close> yields \<^verbatim>\<open>None\<close>.
\<close>

theorem dataframe_atoms_54_82_yields_None:
  "snd (dataframe fresh elements_sample PNone (Py 931.5) (Py 4.2) (AtomsList [54, 82]))
   = Inr None"
  by (simp add: dataframe_def generate_def generate_df_def fresh_def elements_sample_def
      beta_def mean_charge_state_p_series_def derive_beta_def beta_of_energy_def np_sqrt_def
      eq1_def Let_def power_int_minus power2_eq_square)

text \<open>
  Claim C4. For every input, \<^verbatim>\<open>dataframe\<close> hands back no table: \<^verbatim>\<open>__generate\<close> builds
  the table and its columns but has no \<^verbatim>\<open>return\<close>, so the call either raises or
  yields \<^verbatim>\<open>None\<close>.
\<close>

theorem dataframe_returns_no_table:
  "snd (dataframe s elements beta_arg e0_arg energy_arg atoms) = Inr None
   \<or> (\<exists>e. snd (dataframe s elements beta_arg e0_arg energy_arg atoms) = Inl e)"
  by (simp add: dataframe_def generate_def split: prod.splits sum.splits)

text \<open>
  Claim C5. The charge axis returned by \<^verbatim>\<open>charge_state_distribution\<close> is said to be
  \<open>0..2 * m_int\<close> when the half width exceeds the rounded mean \<open>m_int\<close>, and
  \<open>m_int - half_width..m_int + half_width\<close> otherwise, with a density of the same
  length. The expressions of the source compute these (lemmas \<open>charge_x_axis\<close>,
  \<open>charge_x_length\<close>, \<open>charge_y_length\<close>), but no call reaches them: with \<^verbatim>\<open>_beta\<close>
  already set to 0.095, the call for the atomic number 82 with the default arguments
  returns no axis and raises the \<^verbatim>\<open>ValueError\<close> of the helper.
\<close>

theorem charge_state_distribution_at_82_returns_no_axis:
  "snd (charge_state_distribution (fresh\<lparr>priv_beta := Some (Num 0.095)\<rparr>) (Some 82) 4.2 1 931.5 5)
   = Inl (ValueError
       ''Provide both atomic_nr and c_factor or use charge_state_distribution() first'')"
  by (simp add: charge_state_distribution_def mean_charge_state_def mean_charge_state_p_def
      fresh_def)

text \<open>
  Claim C6. At the atomic number 54 the mean and the standard deviation are said to take
  the branch \<open>Z \<ge> 54\<close> (equations 3 and 4), at 53 the branch \<open>Z < 54\<close> (equations 1
  and 2). In the code neither property reaches its test of \<open>Z \<ge> 54\<close>: at 54 and at 53,
  with the factor and \<^verbatim>\<open>_beta\<close> set, both raise the \<^verbatim>\<open>ValueError\<close> of the helper.
\<close>

theorem boundary_54_and_53_raise:
  "mean_charge_state
     (fresh\<lparr>atomic_nr := Some 54, c_factor := Some 1, priv_beta := Some (Num 0.095)\<rparr>)
   = Inl (ValueError
       ''Provide both atomic_nr and c_factor or use charge_state_distribution() first'')
   \<and> std_charge_state
     (fresh\<lparr>atomic_nr := Some 54, c_factor := Some 1, priv_beta := Some (Num 0.095)\<rparr>)
   = Inl (ValueError
       ''Provide both atomic_nr and c_factor or use charge_state_distribution() first'')
   \<and> mean_charge_state
     (fresh\<lparr>atomic_nr := Some 53, c_factor := Some 1, priv_beta := Some (Num 0.095)\<rparr>)
   = Inl (ValueError
       ''Provide both atomic_nr and c_factor or use charge_state_distribution() first'')
   \<and> std_charge_state
     (fresh\<lparr>atomic_nr := Some 53, c_factor := Some 1, priv_beta := Some (Num 0.095)\<rparr>)
   = Inl (ValueError
       ''Provide both atomic_nr and c_factor or use charge_state_distribution() first'')"
  by (simp add: mean_charge_state_def std_charge_state_def mean_charge_state_p_def fresh_def)

text \<open>
  Claim C7. The mean and the standard deviation are said to raise exactly when the
  atomic number is missing, and the reading of \<^verbatim>\<open>beta\<close> exactly when \<^verbatim>\<open>beta\<close> is
  missing. The code raises where a parameter is missing (lemmas
  \<open>mean_charge_state_unset\<close>, \<open>std_charge_state_unset\<close>, \<open>beta_raises_iff\<close>), but the
  mean and the standard deviation also raise where none is: with the atomic number, the
  energy, the factor, \<^verbatim>\<open>e0\<close> and \<^verbatim>\<open>_beta\<close> all set, both give a \<^verbatim>\<open>ValueError\<close>, while
  \<^verbatim>\<open>beta\<close> is read without error.
\<close>

theorem mean_and_std_raise_with_every_parameter_set:
  "mean_charge_state
     \<lparr>atomic_nr = Some 82, energy = Some 4.2, c_factor = Some 1, e0 = Some 931.5,
      priv_beta = Some (Num 0.095)\<rparr>
   = Inl (ValueError
       ''Provide both atomic_nr and c_factor or use charge_state_distribution() first'')
   \<and> std_charge_state
     \<lparr>atomic_nr = Some 82, energy = Some 4.2, c_factor = Some 1, e0 = Some 931.5,
      priv_beta = Some (Num 0.095)\<rparr>
   = Inl (ValueError
       ''Provide both atomic_nr and c_factor or use charge_state_distribution() first'')
   \<and> beta
     \<lparr>atomic_nr = Some 82, energy = Some 4.2, c_factor = Some 1, e0 = Some 931.5,
      priv_beta = Some (Num 0.095)\<rparr>
   = Inr (Num 0.095)"
  by (simp add: mean_charge_state_def std_charge_state_def mean_charge_state_p_def beta_def)

text \<open>
  Claim C8, as amended. For every value assigned to \<^verbatim>\<open>beta\<close>:
  \<^item> a float is stored, and read back and used by equation 1 as it is, whatever
    \<^verbatim>\<open>energy\<close> and \<^verbatim>\<open>e0\<close> hold;
  \<^item> a pair \<open>(energy, e0)\<close> with \<open>e0 \<noteq> 0\<close> and \<open>1 + energy / e0 \<noteq> 0\<close> stores both and
    derives \<^verbatim>\<open>_beta\<close> as \<open>sqrt (1 - (1 + energy / e0)^(-2))\<close>, the square root being
    that of NumPy;
  \<^item> a value that is neither a float nor a tuple of two components raises a
    \<^verbatim>\<open>ValueError\<close> and leaves the state as it was.
  Nothing is said of a pair with \<open>e0 = 0\<close> or \<open>1 + energy / e0 = 0\<close>.
\<close>

theorem beta_setter_cases:
  "beta_setter s (PFloat v) = (s\<lparr>priv_beta := Some (Num v)\<rparr>, Inr ())
   \<and> beta ((fst (beta_setter s (PFloat v)))\<lparr>energy := en', e0 := ez'\<rparr>) = Inr (Num v)
   \<and> mean_charge_state_p ((fst (beta_setter s (PFloat v)))\<lparr>energy := en', e0 := ez'\<rparr>)
        (Some Z) (Some c)
       = Inr (eq1 Z c (Num v))
   \<and> (fval b \<noteq> 0 \<and> 1 + fval a / fval b \<noteq> 0 \<longrightarrow>
        beta_setter s (PTuple [a, b])
          = (s\<lparr>energy := Some (fval a), e0 := Some (fval b),
                priv_beta := Some (np_sqrt (1 - (1 + fval a / fval b) powi (- 2)))\<rparr>, Inr ()))
   \<and> ((\<forall>x. w \<noteq> PFloat x) \<and> (\<forall>x y. w \<noteq> PTuple [x, y]) \<longrightarrow>
        (\<exists>msg. beta_setter s w = (s, Inl (ValueError msg))))"
proof -
  have neither: "\<exists>msg. beta_setter s w = (s, Inl (ValueError msg))"
    if "\<forall>x. w \<noteq> PFloat x" and "\<forall>x y. w \<noteq> PTuple [x, y]"
    using that by (cases "(s, w)" rule: beta_setter.cases) auto
  show ?thesis
    using neither
    by (simp add: beta_def mean_charge_state_p_def derive_beta_def beta_of_energy_def Let_def)
qed

theorem beta_setter_cases_witness:
  "beta_setter fresh (PFloat 0.095) = (fresh\<lparr>priv_beta := Some (Num 0.095)\<rparr>, Inr ())
   \<and> beta_setter fresh (PTuple [Py 4.2, Py 931.5])
       = (fresh\<lparr>energy := Some 4.2, e0 := Some 931.5,
                priv_beta := Some (np_sqrt (1 - (1 + 4.2 / 931.5) powi (- 2)))\<rparr>, Inr ())
   \<and> (\<exists>msg. beta_setter fresh (PInt 1) = (fresh, Inl (ValueError msg)))"
  using beta_setter_cases [of fresh "0.095" None None 82 1 "Py 931.5" "Py 4.2" "PInt 1"]
  by simp

text \<open>
  Claim C8 as it is written fails at the pairs of Python floats \<open>(4.2, 0.0)\<close> and
  \<open>(-1.0, 1.0)\<close>: each is an \<open>(energy, e0)\<close> pair, yet no \<^verbatim>\<open>beta\<close> is derived from it;
  the error is a \<open>ZeroDivisionError\<close>, not the \<^verbatim>\<open>ValueError\<close> of the setter.
\<close>

theorem beta_setter_pair_with_zero_e0:
  "snd (beta_setter fresh (PTuple [Py 4.2, Py 0])) = Inl ZeroDivisionError
   \<and> priv_beta (fst (beta_setter fresh (PTuple [Py 4.2, Py 0]))) = None
   \<and> snd (beta_setter fresh (PTuple [Py (- 1), Py 1])) = Inl ZeroDivisionError
   \<and> priv_beta (fst (beta_setter fresh (PTuple [Py (- 1), Py 1]))) = None"
  by (simp add: fresh_def derive_beta_def)

text \<open>
  Claim C9. For every atomic number \<open>Z\<close> from 54 to 118 the factor of equation 3,
  \<open>1 - exp (-12.905 + 0.2124 * Z - 0.00122 * Z^2)\<close>, lies strictly between 0 and 1.
\<close>

theorem eq3_factor_bounds:
  assumes "54 \<le> Z" and "Z \<le> 118"
  shows "0 < eq3_factor Z \<and> eq3_factor Z < 1"
proof -
  have "0 \<le> (Z - 87)\<^sup>2" by simp
  moreover have "(Z - 87)\<^sup>2 = Z\<^sup>2 - 174 * Z + 7569"
    by (simp add: power2_eq_square algebra_simps)
  ultimately have "174 * Z - 7569 \<le> Z\<^sup>2" by simp
  with assms have "- 12.905 + 0.2124 * Z - 0.00122 * Z\<^sup>2 < 0" by simp
  then show ?thesis
    by (simp add: eq3_factor_def)
qed

theorem eq3_factor_bounds_witness: "0 < eq3_factor 54 \<and> eq3_factor 54 < 1"
  using eq3_factor_bounds [of 54] by simp

text \<open>
  Claim C10. Every call of \<^verbatim>\<open>charge_state_distribution\<close> leaves \<^verbatim>\<open>_beta\<close> as it was and
  overwrites \<^verbatim>\<open>atomic_nr\<close>, \<^verbatim>\<open>energy\<close>, \<^verbatim>\<open>c_factor\<close> and \<^verbatim>\<open>e0\<close> with its arguments.
\<close>

theorem charge_state_distribution_frame:
  "priv_beta (fst (charge_state_distribution s a en c ez n)) = priv_beta s
   \<and> atomic_nr (fst (charge_state_distribution s a en c ez n)) = a
   \<and> energy (fst (charge_state_distribution s a en c ez n)) = Some en
   \<and> c_factor (fst (charge_state_distribution s a en c ez n)) = Some c
   \<and> e0 (fst (charge_state_distribution s a en c ez n)) = Some ez"
  by (simp add: charge_state_distribution_def Let_def split: sum.splits npfloat.splits)

end
